theory Spec2Isabelle
  imports Main "HOL-Library.Word"
begin

section \<open>The WebSocket client of src/index.ts\<close>

text \<open>
  The class \<^verbatim>\<open>Client\<close> of \<^verbatim>\<open>src/index.ts\<close> is embedded as functions on a record of
  its fields. A method that throws returns the error next to the state it leaves behind.
  The modules \<^verbatim>\<open>./packet\<close>, \<^verbatim>\<open>./utils\<close> and \<^verbatim>\<open>./callback\<close> and the built-ins
  \<^verbatim>\<open>JSON\<close> and \<^verbatim>\<open>Number\<close> are not part of the sources: what the client calls of them is
  a field of the record \<open>env\<close>. Console output is not modelled.
\<close>

subsection \<open>JavaScript values\<close>

text \<open>A number field that is only ever assigned \<^verbatim>\<open>0\<close> or incremented: an integer or NaN.\<close>

datatype number = NaN | Num int

datatype jsval = Undefined | Number number | Str string

text \<open>\<^verbatim>\<open>ToNumber\<close> of a field that is a number or still \<^verbatim>\<open>undefined\<close> (\<open>None\<close>).\<close>

fun to_number :: "number option \<Rightarrow> number" where
  "to_number None = NaN"
| "to_number (Some n) = n"

fun number_add :: "number \<Rightarrow> number \<Rightarrow> number" where
  "number_add (Num a) (Num b) = Num (a + b)"
| "number_add _ _ = NaN"

fun number_mul :: "number \<Rightarrow> number \<Rightarrow> number" where
  "number_mul (Num a) (Num b) = Num (a * b)"
| "number_mul _ _ = NaN"

text \<open>String concatenation with a value that may be \<^verbatim>\<open>undefined\<close>.\<close>

fun to_string :: "string option \<Rightarrow> string" where
  "to_string None = ''undefined''"
| "to_string (Some s) = s"

text \<open>\<^verbatim>\<open>s.split(sep)\<close> for a separator of one character: never an empty array.\<close>

fun str_split :: "string \<Rightarrow> char \<Rightarrow> string list" where
  "str_split [] sep = [[]]"
| "str_split (c # cs) sep =
     (if c = sep then [] # str_split cs sep
      else (case str_split cs sep of
              [] \<Rightarrow> [[c]]
            | t # ts \<Rightarrow> (c # t) # ts))"

fun starts_with :: "string \<Rightarrow> string \<Rightarrow> bool" where
  "starts_with s [] = True"
| "starts_with [] (p # ps) = False"
| "starts_with (c # cs) (p # ps) = (c = p \<and> starts_with cs ps)"

text \<open>
  \<^verbatim>\<open>s.replace(pat, rep)\<close> with a string pattern: only the first occurrence of \<open>pat\<close>, found
  as a substring, is replaced. (The replacement used by the client is the empty string,
  so the \<^verbatim>\<open>$\<close> patterns of a replacement never occur.)
\<close>

fun str_replace :: "string \<Rightarrow> string \<Rightarrow> string \<Rightarrow> string" where
  "str_replace [] pat rep = (if pat = [] then rep else [])"
| "str_replace (c # cs) pat rep =
     (if starts_with (c # cs) pat then rep @ drop (length pat) (c # cs)
      else c # str_replace cs pat rep)"

subsection \<open>Errors\<close>

text \<open>
  \<open>Error m\<close> is \<^verbatim>\<open>new Error(m)\<close>. \<open>TypeError\<close> is the engine's error on reading or
  calling through \<^verbatim>\<open>undefined\<close> or \<^verbatim>\<open>null\<close>; its argument names the expression at fault
  (the engine's own message is not modelled). \<open>SyntaxError\<close> is what \<^verbatim>\<open>JSON.parse\<close> throws. \<open>Rethrown e\<close> is \<^verbatim>\<open>new Error(e)\<close>, thrown by
  the \<^verbatim>\<open>catch\<close> of the message handler.
\<close>

datatype error = Error string | TypeError string | SyntaxError string | Rethrown error

subsection \<open>Callbacks\<close>

text \<open>
  A property of a callback object: not there, \<^verbatim>\<open>null\<close>, a value that is not a function,
  or a function, named by a number. A call of a function is recorded with its arguments;
  the function itself belongs to the caller and is taken to return without throwing and
  without calling back into the client.
\<close>

datatype hook = Missing | NullValue | NotFunction | Function nat

record callback =
  onStart :: hook
  onSuccess :: hook
  onError :: hook
  onEnd :: hook

text \<open>
  What a caller may pass where a callback object is expected: a value whose \<^verbatim>\<open>typeof\<close> is
  not \<^verbatim>\<open>'object'\<close> (\<^verbatim>\<open>undefined\<close>, a number, a string, a function; it has none of the
  four properties), \<^verbatim>\<open>null\<close> (whose \<^verbatim>\<open>typeof\<close> is \<^verbatim>\<open>'object'\<close>), or an object.
\<close>

datatype callback_arg = NonObject | NullObject | Object callback

record ready_state_callback =
  onOpen :: hook
  onClose :: hook
  onSocketError :: hook

datatype 'j arg = Json 'j | Val jsval | EventObject

datatype ('j, 'b) effect = Call nat "'j arg list" | SocketSend 'b

subsection \<open>Packets and the environment\<close>

record packet =
  operator :: int
  sequence :: int
  headerLength :: int
  bodyLength :: int
  header :: string
  body :: string

record ('j, 'b) env =
  crc32 :: "jsval \<Rightarrow> int"
  pack :: "int \<Rightarrow> int \<Rightarrow> string option \<Rightarrow> string \<Rightarrow> 'b"
  unPack :: "'b \<Rightarrow> error + packet"
  parse :: "string \<Rightarrow> error + 'j"
  stringify :: "'j \<Rightarrow> string"
  toNumber :: "string \<Rightarrow> number"

subsection \<open>The client's state\<close>

text \<open>
  The functions stored in \<^verbatim>\<open>requestCallback\<close>: the closure \<^verbatim>\<open>asyncSend\<close> builds (it holds
  the callback object and its own key), the closure \<^verbatim>\<open>ping\<close> builds, and a function given
  to \<^verbatim>\<open>addMessageListener\<close>.
\<close>

datatype listener = AsyncSendListener callback int | PingListener callback_arg | MessageListener nat

datatype ready_state = CONNECTING | OPEN | CLOSING | CLOSED

text \<open>
  A field the class declares and nothing has assigned yet is \<^verbatim>\<open>undefined\<close>: \<open>None\<close>.
  \<open>socket\<close> is the \<^verbatim>\<open>readyState\<close> of the socket the client holds. \<open>timers\<close> are the
  delays of the pending \<^verbatim>\<open>setTimeout\<close> calls, \<open>effects\<close> the calls made so far of the
  caller's functions and of \<^verbatim>\<open>socket.send\<close>. Keys of \<^verbatim>\<open>requestCallback\<close> are the integers
  the client computes (as property names, their decimal strings).
\<close>

record ('j, 'b) client =
  requestCallback :: "(int \<rightharpoonup> listener) option"
  requestHeader :: "string option"
  responseHeader :: "string option"
  maxPayload :: int
  url :: string
  reconnectTimes :: "number option"
  reconnectLock :: "bool option"
  socket :: ready_state
  readyStateCallback :: ready_state_callback
  timers :: "number list"
  effects :: "('j, 'b) effect list"

definition MAX_PAYLOAD :: int where
  "MAX_PAYLOAD = 1024 * 1024"

text \<open>\<^verbatim>\<open>connect\<close> makes a new socket, which starts in the state CONNECTING.\<close>

definition connect :: "('j, 'b) client \<Rightarrow> ready_state" where
  "connect c = CONNECTING"

definition constructor :: "string \<Rightarrow> ready_state_callback \<Rightarrow> ('j, 'b) client" where
  "constructor u rsc =
     \<lparr>requestCallback = None, requestHeader = None, responseHeader = None,
      maxPayload = MAX_PAYLOAD, url = u, reconnectTimes = None, reconnectLock = None,
      socket = CONNECTING, readyStateCallback = rsc, timers = [], effects = []\<rparr>"

subsection \<open>Header properties\<close>

fun kv0 :: "string list \<Rightarrow> string option" where
  "kv0 [] = None"
| "kv0 (k # _) = Some k"

fun kv1 :: "string list \<Rightarrow> string option" where
  "kv1 (_ # v # _) = Some v"
| "kv1 _ = None"

text \<open>
  The loop shared by \<^verbatim>\<open>getRequestProperty\<close> and \<^verbatim>\<open>getResponseProperty\<close>: the first token
  whose \<^verbatim>\<open>kv[0]\<close> is the key decides, and the result is its \<^verbatim>\<open>kv[1]\<close>, which is
  \<^verbatim>\<open>undefined\<close> when the token has no \<^verbatim>\<open>=\<close>. \<open>None\<close>: the loop ran to its end.
\<close>

fun find_property :: "string list \<Rightarrow> string \<Rightarrow> string option option" where
  "find_property [] key = None"
| "find_property (t # ts) key =
     (let kv = str_split t (CHR ''='')
      in if kv0 kv = Some key then Some (kv1 kv) else find_property ts key)"

definition getRequestProperty :: "('j, 'b) client \<Rightarrow> string \<Rightarrow> error + string option" where
  "getRequestProperty c key =
     (case requestHeader c of
        None \<Rightarrow> Inl (TypeError ''this.requestHeader is undefined'')
      | Some h \<Rightarrow>
          (case find_property (str_split h (CHR '';'')) key of
             Some v \<Rightarrow> Inr v
           | None \<Rightarrow> Inr None))"

definition setRequestProperty ::
  "('j, 'b) client \<Rightarrow> string \<Rightarrow> string \<Rightarrow> error option \<times> ('j, 'b) client" where
  "setRequestProperty c key val =
     (case getRequestProperty c key of
        Inl err \<Rightarrow> (Some err, c)
      | Inr v \<Rightarrow>
          (case requestHeader c of
             None \<Rightarrow> (Some (TypeError ''this.requestHeader is undefined''), c)
           | Some h \<Rightarrow>
               (let h1 = str_replace h (key @ ''='' @ to_string v @ '';'') '''';
                    h2 = h1 @ key @ ''='' @ val @ '';''
                in (None, c\<lparr>requestHeader := Some h2\<rparr>))))"

text \<open>\<^verbatim>\<open>getResponseProperty\<close> ends with \<^verbatim>\<open>return ''\<close>: a key that is not there reads as ''.\<close>

definition getResponseProperty :: "('j, 'b) client \<Rightarrow> string \<Rightarrow> error + string option" where
  "getResponseProperty c key =
     (case responseHeader c of
        None \<Rightarrow> Inl (TypeError ''this.responseHeader is undefined'')
      | Some h \<Rightarrow>
          (case find_property (str_split h (CHR '';'')) key of
             Some v \<Rightarrow> Inr v
           | None \<Rightarrow> Inr (Some '''')))"

definition setResponseProperty ::
  "('j, 'b) client \<Rightarrow> string \<Rightarrow> string \<Rightarrow> error option \<times> ('j, 'b) client" where
  "setResponseProperty c key val =
     (case getResponseProperty c key of
        Inl err \<Rightarrow> (Some err, c)
      | Inr v \<Rightarrow>
          (case responseHeader c of
             None \<Rightarrow> (Some (TypeError ''this.responseHeader is undefined''), c)
           | Some h \<Rightarrow>
               (let h1 = str_replace h (key @ ''='' @ to_string v @ '';'') '''';
                    h2 = h1 @ key @ ''='' @ val @ '';''
                in (None, c\<lparr>responseHeader := Some h2\<rparr>))))"

subsection \<open>Header strings of the grammar\<close>

text \<open>
  The header strings that the protocol's grammar \<^verbatim>\<open>(key "=" value ";")*\<close> describes: the
  tokens of a list of pairs, written one after the other, with keys and values free of
  \<^verbatim>\<open>;\<close> and \<^verbatim>\<open>=\<close>. These describe inputs; the client itself never builds a header this way.
\<close>

definition token_char :: "char \<Rightarrow> bool" where
  "token_char ch = (ch \<noteq> CHR '';'' \<and> ch \<noteq> CHR ''='')"

fun encode_header :: "(string \<times> string) list \<Rightarrow> string" where
  "encode_header [] = []"
| "encode_header ((k, v) # kvs) = k @ ''='' @ v @ '';'' @ encode_header kvs"

definition well_formed :: "(string \<times> string) list \<Rightarrow> bool" where
  "well_formed kvs = list_all (\<lambda>(k, v). list_all token_char k \<and> list_all token_char v) kvs"

subsection \<open>The maximum payload\<close>

definition setMaxPayload :: "('j, 'b) client \<Rightarrow> int \<Rightarrow> ('j, 'b) client" where
  "setMaxPayload c m = c\<lparr>maxPayload := m\<rparr>"

subsection \<open>Calling the caller's functions, sending\<close>

definition record_call :: "nat \<Rightarrow> 'j arg list \<Rightarrow> ('j, 'b) client \<Rightarrow> ('j, 'b) client" where
  "record_call f args c = c\<lparr>effects := effects c @ [Call f args]\<rparr>"

text \<open>
  The guard of \<^verbatim>\<open>asyncSend\<close> and of the socket handlers:
  \<^verbatim>\<open>o.hasOwnProperty(name) && typeof o[name] === 'function'\<close>, then the call.
\<close>

fun call_if_function :: "hook \<Rightarrow> 'j arg list \<Rightarrow> ('j, 'b) client \<Rightarrow> ('j, 'b) client" where
  "call_if_function (Function f) args c = record_call f args c"
| "call_if_function _ args c = c"

text \<open>A call with no guard: anything but a function throws a TypeError.\<close>

fun call_unchecked ::
  "string \<Rightarrow> hook \<Rightarrow> 'j arg list \<Rightarrow> ('j, 'b) client \<Rightarrow> error option \<times> ('j, 'b) client" where
  "call_unchecked name (Function f) args c = (None, record_call f args c)"
| "call_unchecked name _ args c = (Some (TypeError name), c)"

fun of_option :: "string option \<Rightarrow> jsval" where
  "of_option None = Undefined"
| "of_option (Some s) = Str s"

text \<open>Statements in sequence: the second runs when the first did not throw.\<close>

definition and_then ::
  "error option \<times> 's \<Rightarrow> ('s \<Rightarrow> error option \<times> 's) \<Rightarrow> error option \<times> 's" where
  "and_then r f = (case r of (Some err, s) \<Rightarrow> (Some err, s) | (None, s) \<Rightarrow> f s)"

text \<open>
  \<^verbatim>\<open>send\<close> returns without sending unless the socket is OPEN; \<^verbatim>\<open>socket.send\<close> on an open
  socket is taken not to throw (the method would catch and log it).
\<close>

definition send :: "('j, 'b) client \<Rightarrow> 'b \<Rightarrow> ('j, 'b) client" where
  "send c data =
     (if socket c \<noteq> OPEN then c
      else c\<lparr>effects := effects c @ [SocketSend data]\<rparr>)"

subsection \<open>Listeners\<close>

text \<open>The closure \<^verbatim>\<open>asyncSend\<close> stores under the key \<open>listener\<close> (lines 91 to 118).\<close>

definition asyncSend_listener ::
  "callback \<Rightarrow> int \<Rightarrow> 'j \<Rightarrow> ('j, 'b) client \<Rightarrow> error option \<times> ('j, 'b) client" where
  "asyncSend_listener cb listener data c =
     (case getResponseProperty c ''code'' of
        Inl err \<Rightarrow> (Some err, c)
      | Inr code \<Rightarrow>
          and_then
            (case code of
               Some cv \<Rightarrow>
                 (case getResponseProperty c ''message'' of
                    Inl err \<Rightarrow> (Some err, c)
                  | Inr message \<Rightarrow>
                      (None, call_if_function (onError cb) [Val (Str cv), Val (of_option message)] c))
             | None \<Rightarrow> (None, call_if_function (onSuccess cb) [Json data] c))
            (\<lambda>c1.
               let c2 = call_if_function (onEnd cb) [] c1
               in (case requestCallback c2 of
                     None \<Rightarrow> (Some (TypeError ''this.requestCallback is undefined''), c2)
                   | Some m \<Rightarrow> (None, c2\<lparr>requestCallback := Some (m(listener := None))\<rparr>))))"

text \<open>
  The closure \<^verbatim>\<open>ping\<close> registers (lines 35 to 47): \<^verbatim>\<open>onError\<close> is called unless it is
  \<^verbatim>\<open>null\<close>, \<^verbatim>\<open>onSuccess\<close> and \<^verbatim>\<open>onEnd\<close> are called with no check. On a callback that is
  no object every such access or call throws.
\<close>

definition ping_listener ::
  "('j, 'b) env \<Rightarrow> callback_arg \<Rightarrow> 'j \<Rightarrow> ('j, 'b) client \<Rightarrow> error option \<times> ('j, 'b) client" where
  "ping_listener e cba data c =
     (case getResponseProperty c ''code'' of
        Inl err \<Rightarrow> (Some err, c)
      | Inr code \<Rightarrow>
          and_then
            (case code of
               Some cv \<Rightarrow>
                 (case getResponseProperty c ''message'' of
                    Inl err \<Rightarrow> (Some err, c)
                  | Inr message \<Rightarrow>
                      (case cba of
                         Object cb \<Rightarrow>
                           (case onError cb of
                              NullValue \<Rightarrow> (None, c)
                            | h \<Rightarrow>
                                call_unchecked ''requestCallback.onError'' h
                                  [Val (Number (toNumber e cv)), Val (of_option message)] c)
                       | _ \<Rightarrow> (Some (TypeError ''requestCallback.onError''), c)))
             | None \<Rightarrow>
                 (case cba of
                    Object cb \<Rightarrow>
                      call_unchecked ''requestCallback.onSuccess'' (onSuccess cb) [Json data] c
                  | _ \<Rightarrow> (Some (TypeError ''requestCallback.onSuccess''), c)))
            (\<lambda>c1.
               case cba of
                 Object cb \<Rightarrow> call_unchecked ''requestCallback.onEnd'' (onEnd cb) [] c1
               | _ \<Rightarrow> (Some (TypeError ''requestCallback.onEnd''), c1)))"

fun invoke ::
  "('j, 'b) env \<Rightarrow> listener \<Rightarrow> 'j \<Rightarrow> ('j, 'b) client \<Rightarrow> error option \<times> ('j, 'b) client" where
  "invoke e (AsyncSendListener cb k) data c = asyncSend_listener cb k data c"
| "invoke e (PingListener cba) data c = ping_listener e cba data c"
| "invoke e (MessageListener f) data c = (None, record_call f [Json data] c)"

subsection \<open>The public operations\<close>

definition addMessageListener ::
  "('j, 'b) env \<Rightarrow> jsval \<Rightarrow> listener \<Rightarrow> ('j, 'b) client \<Rightarrow> error option \<times> ('j, 'b) client" where
  "addMessageListener e opr l c =
     (case requestCallback c of
        None \<Rightarrow> (Some (TypeError ''this.requestCallback is undefined''), c)
      | Some m \<Rightarrow> (None, c\<lparr>requestCallback := Some (m(crc32 e opr \<mapsto> l))\<rparr>))"

definition removeMessageListener ::
  "('j, 'b) env \<Rightarrow> jsval \<Rightarrow> ('j, 'b) client \<Rightarrow> error option \<times> ('j, 'b) client" where
  "removeMessageListener e opr c =
     (case requestCallback c of
        None \<Rightarrow> (Some (TypeError ''this.requestCallback is undefined''), c)
      | Some m \<Rightarrow> (None, c\<lparr>requestCallback := Some (m(crc32 e opr := None))\<rparr>))"

definition ping ::
  "('j, 'b) env \<Rightarrow> 'j \<Rightarrow> callback_arg \<Rightarrow> ('j, 'b) client \<Rightarrow> error option \<times> ('j, 'b) client" where
  "ping e param cba c =
     (if socket c \<noteq> OPEN then (Some (Error ''asyncSend: connection refuse''), c)
      else
        and_then (addMessageListener e (Number (Num 0)) (PingListener cba) c)
          (\<lambda>c1. (None, send c1 (pack e 0 0 (requestHeader c1) (stringify e param)))))"

text \<open>
  \<^verbatim>\<open>asyncSend(operator, param, callback)\<close>; \<open>now\<close> is what \<^verbatim>\<open>new Date().getTime()\<close>
  returns during the call.
\<close>

fun asyncSend ::
  "('j, 'b) env \<Rightarrow> jsval \<Rightarrow> 'j \<Rightarrow> callback_arg \<Rightarrow> int \<Rightarrow> ('j, 'b) client
     \<Rightarrow> error option \<times> ('j, 'b) client" where
  "asyncSend e opr param NonObject now c = (Some (Error ''callback must be an object''), c)"
| "asyncSend e opr param NullObject now c =
     (if socket c \<noteq> OPEN then (Some (Error ''asyncSend: connection refuse''), c)
      else (Some (TypeError ''callback.hasOwnProperty''), c))"
| "asyncSend e opr param (Object cb) now c =
     (if socket c \<noteq> OPEN then (Some (Error ''asyncSend: connection refuse''), c)
      else
        (let c1 = call_if_function (onStart cb) [] c;
             sequence = now;
             listener = crc32 e opr + sequence
         in (case requestCallback c1 of
               None \<Rightarrow> (Some (TypeError ''this.requestCallback is undefined''), c1)
             | Some m \<Rightarrow>
                 (let c2 = c1\<lparr>requestCallback := Some (m(listener \<mapsto> AsyncSendListener cb listener))\<rparr>
                  in (None,
                      send c2
                        (pack e (crc32 e opr) sequence (requestHeader c2) (stringify e param)))))))"

subsection \<open>The socket's handlers\<close>

datatype 'b message_data = Blob 'b | NotBlob

definition rethrow :: "error option \<times> 's \<Rightarrow> error option \<times> 's" where
  "rethrow r = (case r of (Some err, s) \<Rightarrow> (Some (Rethrown err), s) | (None, s) \<Rightarrow> (None, s))"

text \<open>
  The body of the \<^verbatim>\<open>try\<close> in \<^verbatim>\<open>reader.onload\<close> (lines 239 to 255), run as soon as the
  message arrives. The message of the size error is
  \<^verbatim>\<open>'the packet is big than ' + MAX_PAYLOAD\<close>.
\<close>

definition onload ::
  "('j, 'b) env \<Rightarrow> 'b \<Rightarrow> ('j, 'b) client \<Rightarrow> error option \<times> ('j, 'b) client" where
  "onload e buf c =
     (case unPack e buf of
        Inl err \<Rightarrow> (Some err, c)
      | Inr p \<Rightarrow>
          (let packetLength = headerLength p + bodyLength p + 20
           in if packetLength > MAX_PAYLOAD
              then (Some (Error ''the packet is big than 1048576''), c)
              else
                (let key = operator p + sequence p
                 in (case requestCallback c of
                       None \<Rightarrow> (Some (TypeError ''this.requestCallback is undefined''), c)
                     | Some m \<Rightarrow>
                         (case m key of
                            None \<Rightarrow> (None, c)
                          | Some l \<Rightarrow>
                              (let b = (if body p = [] then ''{}'' else body p);
                                   c1 = c\<lparr>responseHeader := Some (header p)\<rparr>
                               in (case parse e b of
                                     Inl err \<Rightarrow> (Some err, c1)
                                   | Inr data \<Rightarrow> invoke e l data c1)))))))"

definition onmessage ::
  "('j, 'b) env \<Rightarrow> 'b message_data \<Rightarrow> ('j, 'b) client \<Rightarrow> error option \<times> ('j, 'b) client" where
  "onmessage e data c =
     (case data of
        Blob buf \<Rightarrow> rethrow (onload e buf c)
      | NotBlob \<Rightarrow> (Some (Error ''websocket unsupported data format''), c))"

text \<open>\<^verbatim>\<open>reconnect\<close> up to the \<^verbatim>\<open>setTimeout\<close> call, and the function the timer runs.\<close>

definition reconnect :: "('j, 'b) client \<Rightarrow> ('j, 'b) client" where
  "reconnect c =
     (if reconnectLock c \<noteq> Some True
      then c\<lparr>reconnectLock := Some True,
             timers := timers c @ [number_mul (to_number (reconnectTimes c)) (Num 1000)]\<rparr>
      else c)"

definition reconnect_timeout :: "('j, 'b) client \<Rightarrow> ('j, 'b) client" where
  "reconnect_timeout c =
     c\<lparr>reconnectTimes := Some (number_add (to_number (reconnectTimes c)) (Num 1)),
       socket := connect c,
       reconnectLock := Some False\<rparr>"

definition onopen :: "('j, 'b) client \<Rightarrow> ('j, 'b) client" where
  "onopen c =
     call_if_function (onOpen (readyStateCallback c)) [EventObject]
       (c\<lparr>reconnectTimes := Some (Num 0)\<rparr>)"

definition onclose :: "('j, 'b) client \<Rightarrow> ('j, 'b) client" where
  "onclose c = call_if_function (onClose (readyStateCallback c)) [EventObject] (reconnect c)"

definition onerror :: "('j, 'b) client \<Rightarrow> ('j, 'b) client" where
  "onerror c = call_if_function (onSocketError (readyStateCallback c)) [EventObject] (reconnect c)"

text \<open>
  What the browser delivers to the client: the socket opens, closes or fails (its
  \<^verbatim>\<open>readyState\<close> changes before the handler runs), a message arrives, or the oldest
  pending timer fires. An error thrown by a handler ends that handler only.
\<close>

datatype 'b socket_event =
  OpenEvent | CloseEvent | ErrorEvent | MessageEvent "'b message_data" | TimeoutEvent

fun fire ::
  "('j, 'b) env \<Rightarrow> 'b socket_event \<Rightarrow> ('j, 'b) client \<Rightarrow> error option \<times> ('j, 'b) client" where
  "fire e OpenEvent c = (None, onopen (c\<lparr>socket := OPEN\<rparr>))"
| "fire e CloseEvent c = (None, onclose (c\<lparr>socket := CLOSED\<rparr>))"
| "fire e ErrorEvent c = (None, onerror (c\<lparr>socket := CLOSED\<rparr>))"
| "fire e (MessageEvent d) c = onmessage e d c"
| "fire e TimeoutEvent c =
     (case timers c of
        [] \<Rightarrow> (None, c)
      | t # ts \<Rightarrow> (None, reconnect_timeout (c\<lparr>timers := ts\<rparr>)))"

fun run :: "('j, 'b) env \<Rightarrow> 'b socket_event list \<Rightarrow> ('j, 'b) client \<Rightarrow> ('j, 'b) client" where
  "run e [] c = c"
| "run e (ev # evs) c = run e evs (snd (fire e ev c))"

text \<open>The frames handed to \<^verbatim>\<open>socket.send\<close>, oldest first.\<close>

fun sent :: "('j, 'b) effect list \<Rightarrow> 'b list" where
  "sent [] = []"
| "sent (Call f args # xs) = sent xs"
| "sent (SocketSend d # xs) = d # sent xs"

text \<open>The calls a guarded hook adds.\<close>

fun hook_calls :: "hook \<Rightarrow> 'j arg list \<Rightarrow> ('j, 'b) effect list" where
  "hook_calls (Function f) args = [Call f args]"
| "hook_calls _ args = []"

subsection \<open>The collaborators that are not among the sources\<close>

text \<open>The unsigned number that bytes spell, most significant byte first.\<close>

definition be_uint :: "8 word list \<Rightarrow> int" where
  "be_uint bs = foldl (\<lambda>a b. a * 256 + uint b) 0 bs"

text \<open>
  Modelled from the spec: \<^verbatim>\<open>Packet.unPack\<close> of \<^verbatim>\<open>./packet\<close>, which is not among the
  sources. The spec's \<^verbatim>\<open>Decode\<close> reads the four fixed-width fields (operator 4 bytes,
  sequence 8 bytes signed, headerLength 4, bodyLength 4; taken big-endian here), then
  slices \<open>headerLength\<close> bytes as the header and \<open>bodyLength\<close> bytes as the body, and fails
  with \<^verbatim>\<open>MalformedFrame\<close> if the buffer is shorter than the declared lengths. A byte is read
  as one character.
\<close>

definition unPack_spec :: "8 word list \<Rightarrow> error + packet" where
  "unPack_spec bs =
     (if length bs < 20 then Inl (Error ''MalformedFrame'')
      else
        (let hl = be_uint (take 4 (drop 12 bs));
             bl = be_uint (take 4 (drop 16 bs))
         in if int (length bs) < 20 + hl + bl then Inl (Error ''MalformedFrame'')
            else
              Inr \<lparr>operator = be_uint (take 4 bs),
                   sequence = sint (word_of_int (be_uint (take 8 (drop 4 bs))) :: 64 word),
                   headerLength = hl,
                   bodyLength = bl,
                   header = map (\<lambda>b. char_of (unat b)) (take (nat hl) (drop 20 bs)),
                   body = map (\<lambda>b. char_of (unat b)) (take (nat bl) (drop (20 + nat hl) bs))\<rparr>))"

text \<open>
  Stand-ins for the other collaborators, for evaluating the client on concrete inputs.
  A JSON value is represented by its text, so \<open>parse\<close> and \<open>stringify\<close> return their
  argument. \<open>char_sum\<close> is a hash that adds up the character codes of a string operand
  and finds no characters in an operand that is not a string. \<open>decimal_number\<close> is
  \<^verbatim>\<open>Number\<close> on the strings of decimal digits and on the empty string.
\<close>

definition char_sum :: "jsval \<Rightarrow> int" where
  "char_sum v = (case v of Str s \<Rightarrow> (\<Sum>ch\<leftarrow>s. int (of_char ch)) mod 2 ^ 32 | _ \<Rightarrow> 0)"

definition is_digit :: "char \<Rightarrow> bool" where
  "is_digit ch = (48 \<le> (of_char ch :: nat) \<and> (of_char ch :: nat) \<le> 57)"

definition decimal_number :: "string \<Rightarrow> number" where
  "decimal_number s =
     (if list_all is_digit s then Num (foldl (\<lambda>a ch. a * 10 + (int (of_char ch) - 48)) 0 s)
      else NaN)"

definition frame_env :: "(string, packet) env" where
  "frame_env =
     \<lparr>crc32 = char_sum,
      pack = (\<lambda>opr sq h b.
        \<lparr>operator = opr, sequence = sq, headerLength = int (length (to_string h)),
         bodyLength = int (length b), header = to_string h, body = b\<rparr>),
      unPack = Inr,
      parse = Inr,
      stringify = (\<lambda>j. j),
      toNumber = decimal_number\<rparr>"

text \<open>
  \<^verbatim>\<open>JSON.parse\<close> throws a SyntaxError on a text that begins with a lower-case letter other
  than \<^verbatim>\<open>t\<close>, \<^verbatim>\<open>f\<close> and \<^verbatim>\<open>n\<close>: no JSON value begins so. \<open>checking_parse\<close> rejects those
  texts and, like \<open>parse\<close> of \<open>frame_env\<close>, returns any other text as its own value.
\<close>

definition bare_word :: "string \<Rightarrow> bool" where
  "bare_word s =
     (case s of
        [] \<Rightarrow> False
      | ch # _ \<Rightarrow>
          97 \<le> (of_char ch :: nat) \<and> (of_char ch :: nat) \<le> 122 \<and>
          ch \<noteq> CHR ''t'' \<and> ch \<noteq> CHR ''f'' \<and> ch \<noteq> CHR ''n'')"

definition checking_parse :: "string \<Rightarrow> error + string" where
  "checking_parse s = (if bare_word s then Inl (SyntaxError ''JSON.parse'') else Inr s)"

definition checking_env :: "(string, packet) env" where
  "checking_env = frame_env\<lparr>parse := checking_parse\<rparr>"

definition bytes_env :: "(string, 8 word list) env" where
  "bytes_env =
     \<lparr>crc32 = char_sum,
      pack = (\<lambda>opr sq h b. []),
      unPack = unPack_spec,
      parse = Inr,
      stringify = (\<lambda>j. j),
      toNumber = decimal_number\<rparr>"

text \<open>A client whose registry and request header have been given values, with an open socket.\<close>

definition ready_client :: "('j, 'b) client" where
  "ready_client =
     \<lparr>requestCallback = Some Map.empty, requestHeader = Some [], responseHeader = None,
      maxPayload = MAX_PAYLOAD, url = ''ws://localhost'', reconnectTimes = Some (Num 0),
      reconnectLock = None, socket = OPEN,
      readyStateCallback = \<lparr>onOpen = Missing, onClose = Missing, onSocketError = Missing\<rparr>,
      timers = [], effects = []\<rparr>"

definition all_hooks :: callback where
  "all_hooks = \<lparr>onStart = Function 1, onSuccess = Function 2, onError = Function 3, onEnd = Function 4\<rparr>"

definition frame :: "int \<Rightarrow> int \<Rightarrow> string \<Rightarrow> string \<Rightarrow> packet" where
  "frame opr sq h b =
     \<lparr>operator = opr, sequence = sq, headerLength = int (length h), bodyLength = int (length b),
      header = h, body = b\<rparr>"

definition no_hooks :: ready_state_callback where
  "no_hooks = \<lparr>onOpen = Missing, onClose = Missing, onSocketError = Missing\<rparr>"

text \<open>
  The client after \<^verbatim>\<open>asyncSend('foo', ..., callback)\<close> at time 1000 with all four hooks given:
  the hash of \<^verbatim>\<open>'foo'\<close> is 324 here, so the call is registered under 1324.
\<close>

definition pending_client :: "(string, packet) client" where
  "pending_client =
     snd (asyncSend frame_env (Str ''foo'') ''{}'' (Object all_hooks) 1000 ready_client)"

text \<open>A callback object that has \<^verbatim>\<open>onSuccess\<close> and \<^verbatim>\<open>onError\<close> only.\<close>

definition no_onEnd :: callback where
  "no_onEnd = \<lparr>onStart = Missing, onSuccess = Function 2, onError = Function 3, onEnd = Missing\<rparr>"

text \<open>
  Twenty bytes: operator 0, sequence 0, a declared header length of 2097152 bytes and a
  declared body length of 0, followed by nothing.
\<close>

definition truncated_frame :: "8 word list" where
  "truncated_frame = [0, 0, 0, 0, 0, 0, 0, 0, 0, 0, 0, 0, 0, 32, 0, 0, 0, 0, 0, 0]"

text \<open>A client with one listener, under the key 5.\<close>

definition listening_client :: "(string, packet) client" where
  "listening_client = ready_client\<lparr>requestCallback := Some [5 \<mapsto> MessageListener 9]\<rparr>"

text \<open>A client on whose empty request header \<^verbatim>\<open>ak\<close> has been set to 1 and \<^verbatim>\<open>b\<close> to 2.\<close>

definition header_client :: "(string, packet) client" where
  "header_client =
     snd (setRequestProperty (snd (setRequestProperty ready_client ''ak'' ''1'')) ''b'' ''2'')"

text \<open>A frame whose header alone is 1 MiB long.\<close>

definition big_frame :: packet where
  "big_frame = frame 5 0 (replicate 1048576 (CHR ''a'')) ''{}''"

section \<open>Basic facts\<close>

lemmas client_defs = onmessage_def onload_def rethrow_def and_then_def
  asyncSend_listener_def ping_listener_def getResponseProperty_def getRequestProperty_def
  setRequestProperty_def addMessageListener_def ping_def send_def record_call_def
  ready_client_def frame_env_def all_hooks_def frame_def char_sum_def MAX_PAYLOAD_def Let_def
  setMaxPayload_def pending_client_def listening_client_def header_client_def no_onEnd_def

lemma str_split_not_Nil: "str_split s sep \<noteq> []"
  by (induction s) (auto split: list.splits)

lemma sent_append: "sent (xs @ ys) = sent xs @ sent ys"
  by (induction xs rule: sent.induct) simp_all

lemma rethrow_snd: "snd (rethrow r) = snd r"
  by (cases r) (simp add: rethrow_def split: option.splits)

lemma call_if_function_fields:
  "requestCallback (call_if_function h args c) = requestCallback c"
  "requestHeader (call_if_function h args c) = requestHeader c"
  "responseHeader (call_if_function h args c) = responseHeader c"
  "sent (effects (call_if_function h args c)) = sent (effects c)"
  "socket (call_if_function h args c) = socket c"
  "timers (call_if_function h args c) = timers c"
  "reconnectTimes (call_if_function h args c) = reconnectTimes c"
  "reconnectLock (call_if_function h args c) = reconnectLock c"
  "readyStateCallback (call_if_function h args c) = readyStateCallback c"
  by (cases h; simp add: record_call_def sent_append)+

lemma call_if_function_effects:
  "effects (call_if_function h args c) = effects c @ hook_calls h args"
  by (cases h) (simp_all add: record_call_def)

section \<open>A client fresh from the constructor\<close>

lemma onload_undefined_registry:
  "requestCallback c = None \<Longrightarrow> snd (onload e buf c) = c"
  by (simp add: onload_def Let_def split: sum.splits)

lemma onmessage_undefined_registry:
  "requestCallback c = None \<Longrightarrow> snd (onmessage e d c) = c"
  by (cases d) (simp_all add: onmessage_def rethrow_snd onload_undefined_registry)

lemma fire_undefined_registry:
  assumes "requestCallback c = None"
  shows "requestCallback (snd (fire e ev c)) = None"
    and "requestHeader (snd (fire e ev c)) = requestHeader c"
    and "sent (effects (snd (fire e ev c))) = sent (effects c)"
  using assms
  by (cases ev; simp add: onmessage_undefined_registry call_if_function_fields onopen_def
      onclose_def onerror_def reconnect_def reconnect_timeout_def split: list.splits)+

lemma run_undefined_registry:
  "requestCallback c = None \<Longrightarrow>
     requestCallback (run e evs c) = None \<and>
     requestHeader (run e evs c) = requestHeader c \<and>
     sent (effects (run e evs c)) = sent (effects c)"
  by (induction evs arbitrary: c) (simp_all add: fire_undefined_registry)

text \<open>
  C4. The constructor assigns neither \<^verbatim>\<open>requestCallback\<close> nor \<^verbatim>\<open>requestHeader\<close>, and no
  socket event assigns them later. So on a client \<open>c\<close> that has only been constructed and
  has seen any socket events, \<^verbatim>\<open>getRequestProperty\<close> and \<^verbatim>\<open>setRequestProperty\<close> throw a
  TypeError, and once the socket is OPEN \<^verbatim>\<open>asyncSend\<close> (with a callback object) and \<^verbatim>\<open>ping\<close>
  throw a TypeError too, with no frame handed to the socket.
\<close>

theorem fresh_client_throws_TypeError:
  assumes c: "c = run e evs (constructor u rsc)"
  shows "getRequestProperty c key = Inl (TypeError ''this.requestHeader is undefined'') \<and>
         fst (setRequestProperty c key v) = Some (TypeError ''this.requestHeader is undefined'') \<and>
         (socket c = OPEN \<longrightarrow>
            fst (asyncSend e opr param (Object cb) now c)
              = Some (TypeError ''this.requestCallback is undefined'') \<and>
            sent (effects (snd (asyncSend e opr param (Object cb) now c))) = [] \<and>
            fst (ping e pparam cba c) = Some (TypeError ''this.requestCallback is undefined'') \<and>
            sent (effects (snd (ping e pparam cba c))) = [])"
proof -
  have fresh: "requestCallback (constructor u rsc :: ('a, 'b) client) = None"
    by (simp add: constructor_def)
  have rc: "requestCallback c = None"
    and rh: "requestHeader c = None"
    and se: "sent (effects c) = []"
    using run_undefined_registry [OF fresh, of e evs] by (simp_all add: c constructor_def)
  have get: "getRequestProperty c key = Inl (TypeError ''this.requestHeader is undefined'')"
    by (simp add: getRequestProperty_def rh)
  have set: "fst (setRequestProperty c key v) = Some (TypeError ''this.requestHeader is undefined'')"
    by (simp add: setRequestProperty_def get)
  have async: "socket c = OPEN \<Longrightarrow>
      fst (asyncSend e opr param (Object cb) now c)
        = Some (TypeError ''this.requestCallback is undefined'') \<and>
      sent (effects (snd (asyncSend e opr param (Object cb) now c))) = []"
    by (simp add: Let_def call_if_function_fields rc se)
  have pg: "socket c = OPEN \<Longrightarrow>
      fst (ping e pparam cba c) = Some (TypeError ''this.requestCallback is undefined'') \<and>
      sent (effects (snd (ping e pparam cba c))) = []"
    by (simp add: ping_def addMessageListener_def and_then_def rc se)
  from get set async pg show ?thesis by simp
qed

theorem fresh_client_throws_TypeError_witness:
  "socket (run frame_env [OpenEvent] (constructor ''ws://host'' no_hooks)) = OPEN \<and>
   getRequestProperty (run frame_env [OpenEvent] (constructor ''ws://host'' no_hooks)) ''token''
     = Inl (TypeError ''this.requestHeader is undefined'') \<and>
   fst (setRequestProperty (run frame_env [OpenEvent] (constructor ''ws://host'' no_hooks))
          ''token'' ''x'')
     = Some (TypeError ''this.requestHeader is undefined'') \<and>
   fst (asyncSend frame_env (Str ''foo'') ''{}'' (Object all_hooks) 1000
          (run frame_env [OpenEvent] (constructor ''ws://host'' no_hooks)))
     = Some (TypeError ''this.requestCallback is undefined'') \<and>
   fst (ping frame_env ''{}'' (Object all_hooks)
          (run frame_env [OpenEvent] (constructor ''ws://host'' no_hooks)))
     = Some (TypeError ''this.requestCallback is undefined'')"
proof -
  have op: "socket (run frame_env [OpenEvent] (constructor ''ws://host'' no_hooks)
              :: (string, packet) client) = OPEN"
    by (simp add: onopen_def constructor_def no_hooks_def)
  show ?thesis
    using op fresh_client_throws_TypeError [OF refl, where e = frame_env and evs = "[OpenEvent]"
        and u = "''ws://host''" and rsc = no_hooks and key = "''token''" and v = "''x''"
        and opr = "Str ''foo''" and param = "''{}''" and cb = all_hooks and now = 1000
        and pparam = "''{}''" and cba = "Object all_hooks"]
    by simp
qed

section \<open>Dispatch of an inbound frame\<close>

lemma getResponseProperty_defined:
  "responseHeader c = Some h \<Longrightarrow> \<exists>v. getResponseProperty c key = Inr v"
  by (simp add: getResponseProperty_def split: option.splits)

lemma rethrow_fst_None: "fst r = None \<Longrightarrow> rethrow r = r"
  by (cases r) (simp add: rethrow_def)

lemma onmessage_dispatch:
  assumes "unPack e buf = Inr p"
    and "headerLength p + bodyLength p + 20 \<le> MAX_PAYLOAD"
    and "requestCallback c = Some m"
    and "m (operator p + sequence p) = Some l"
    and "parse e (if body p = [] then ''{}'' else body p) = Inr d"
  shows "onmessage e (Blob buf) c = rethrow (invoke e l d (c\<lparr>responseHeader := Some (header p)\<rparr>))"
  using assms by (simp add: onmessage_def onload_def Let_def)

lemma onmessage_dropped:
  assumes "unPack e buf = Inr p"
    and "headerLength p + bodyLength p + 20 \<le> MAX_PAYLOAD"
    and "requestCallback c = Some m"
    and "m (operator p + sequence p) = None"
  shows "onmessage e (Blob buf) c = (None, c)"
  using assms by (simp add: onmessage_def onload_def Let_def rethrow_def)

text \<open>
  The closure of \<^verbatim>\<open>asyncSend\<close> never throws, whatever hooks the callback object has: it
  takes one branch, then \<^verbatim>\<open>onEnd\<close>, then deletes its own entry.
\<close>

lemma asyncSend_listener_result:
  assumes "requestCallback c = Some m"
    and "getResponseProperty c ''code'' = Inr code"
    and "getResponseProperty c ''message'' = Inr message"
  shows "fst (asyncSend_listener cb k d c) = None"
    and "requestCallback (snd (asyncSend_listener cb k d c)) = Some (m(k := None))"
    and "effects (snd (asyncSend_listener cb k d c)) =
           effects c @
           (case code of
              Some cv \<Rightarrow> hook_calls (onError cb) [Val (Str cv), Val (of_option message)]
            | None \<Rightarrow> hook_calls (onSuccess cb) [Json d]) @
           hook_calls (onEnd cb) []"
  using assms
  by (cases code; simp add: asyncSend_listener_def and_then_def Let_def
      call_if_function_fields call_if_function_effects)+

lemma asyncSend_registers:
  assumes "socket c = OPEN" and "requestCallback c = Some m"
  shows "fst (asyncSend e opr param (Object cb) s c) = None"
    and "requestCallback (snd (asyncSend e opr param (Object cb) s c))
           = Some (m(crc32 e opr + s \<mapsto> AsyncSendListener cb (crc32 e opr + s)))"
    and "effects (snd (asyncSend e opr param (Object cb) s c))
           = effects c @ hook_calls (onStart cb) [] @
             [SocketSend (pack e (crc32 e opr) s (requestHeader c) (stringify e param))]"
  using assms
  by (simp_all add: Let_def call_if_function_fields call_if_function_effects send_def)

lemma call_unchecked_registry:
  "requestCallback (snd (call_unchecked name h args c)) = requestCallback c"
  by (cases h) (simp_all add: record_call_def)

lemma and_then_registry:
  assumes "requestCallback (snd r) = x"
    and "\<And>s. requestCallback (snd (f s)) = requestCallback s"
  shows "requestCallback (snd (and_then r f)) = x"
  using assms by (cases r) (auto simp: and_then_def split: option.splits)

text \<open>The closure of \<^verbatim>\<open>ping\<close> leaves the registry as it is: its entry stays.\<close>

lemma ping_listener_registry:
  "requestCallback (snd (ping_listener e cba d c)) = requestCallback c"
proof (cases "getResponseProperty c ''code''")
  case (Inl err)
  then show ?thesis by (simp add: ping_listener_def)
next
  case (Inr code)
  have last: "\<And>s. requestCallback
      (snd (case cba of
              Object cb \<Rightarrow> call_unchecked ''requestCallback.onEnd'' (onEnd cb) [] s
            | _ \<Rightarrow> (Some (TypeError ''requestCallback.onEnd''), s))) = requestCallback s"
    by (cases cba) (simp_all add: call_unchecked_registry)
  have first: "requestCallback
      (snd (case code of
               Some cv \<Rightarrow>
                 (case getResponseProperty c ''message'' of
                    Inl err \<Rightarrow> (Some err, c)
                  | Inr message \<Rightarrow>
                      (case cba of
                         Object cb \<Rightarrow>
                           (case onError cb of
                              NullValue \<Rightarrow> (None, c)
                            | h \<Rightarrow>
                                call_unchecked ''requestCallback.onError'' h
                                  [Val (Number (toNumber e cv)), Val (of_option message)] c)
                       | _ \<Rightarrow> (Some (TypeError ''requestCallback.onError''), c)))
             | None \<Rightarrow>
                 (case cba of
                    Object cb \<Rightarrow>
                      call_unchecked ''requestCallback.onSuccess'' (onSuccess cb) [Json d] c
                  | _ \<Rightarrow> (Some (TypeError ''requestCallback.onSuccess''), c)))) = requestCallback c"
    by (simp add: call_unchecked_registry record_call_def
        split: option.splits sum.splits callback_arg.splits hook.splits)
  show ?thesis
    unfolding ping_listener_def Inr sum.case
    by (rule and_then_registry [OF first last])
qed

lemma ping_registers:
  assumes "socket c = OPEN" and "requestCallback c = Some m"
  shows "fst (ping e param cba c) = None"
    and "requestCallback (snd (ping e param cba c))
           = Some (m(crc32 e (Number (Num 0)) \<mapsto> PingListener cba))"
    and "effects (snd (ping e param cba c))
           = effects c @ [SocketSend (pack e 0 0 (requestHeader c) (stringify e param))]"
  using assms by (simp_all add: ping_def addMessageListener_def and_then_def send_def)

section \<open>Looking a key up in a header of the grammar\<close>

lemma str_split_no_sep: "sep \<notin> set s \<Longrightarrow> str_split s sep = [s]"
  by (induction s) auto

lemma str_split_append_sep:
  "sep \<notin> set s \<Longrightarrow> str_split (s @ sep # rest) sep = s # str_split rest sep"
  by (induction s) auto

lemma token_split:
  assumes "list_all token_char k" and "list_all token_char v"
  shows "str_split (k @ CHR ''='' # v) (CHR ''='') = [k, v]"
proof -
  have k: "CHR ''='' \<notin> set k" and v: "CHR ''='' \<notin> set v"
    using assms by (auto simp: list_all_iff token_char_def)
  show ?thesis
    using str_split_append_sep [OF k, of v] str_split_no_sep [OF v] by simp
qed

lemma header_split:
  assumes "list_all token_char k" and "list_all token_char v"
  shows "str_split (k @ CHR ''='' # v @ CHR '';'' # rest) (CHR '';'')
           = (k @ CHR ''='' # v) # str_split rest (CHR '';'')"
proof -
  have "CHR '';'' \<notin> set (k @ CHR ''='' # v)"
    using assms by (auto simp: list_all_iff token_char_def)
  from str_split_append_sep [OF this, of rest] show ?thesis by simp
qed

text \<open>
  On a header of the grammar the loop finds the value of the first token with the key, and
  runs to its end when no token has the key.
\<close>

lemma find_property_encode_header:
  assumes "well_formed kvs" and "key \<noteq> []"
  shows "find_property (str_split (encode_header kvs) (CHR '';'')) key
           = map_option Some (map_of kvs key)"
  using assms(1)
proof (induction kvs)
  case Nil
  then show ?case using assms(2) by auto
next
  case (Cons kv kvs)
  obtain k v where kv: "kv = (k, v)" by (cases kv)
  from Cons.prems kv have wk: "list_all token_char k" and wv: "list_all token_char v"
    and rest: "well_formed kvs"
    by (simp_all add: well_formed_def)
  show ?case
    using Cons.IH [OF rest]
    by (simp add: kv header_split [OF wk wv] token_split [OF wk wv] Let_def)
qed

lemma getResponseProperty_encode_header:
  assumes "well_formed kvs" and "responseHeader c = Some (encode_header kvs)"
    and "key \<noteq> []" and "map_of kvs key = Some v"
  shows "getResponseProperty c key = Inr (Some v)"
  using assms by (simp add: getResponseProperty_def find_property_encode_header)

section \<open>Routing on the response header's code\<close>

text \<open>
  C1 (amended). Take a matched inbound frame (one that \<^verbatim>\<open>unPack\<close> decodes, within the size
  limit, whose body is empty or parses) that is delivered to a callback registered by
  \<^verbatim>\<open>asyncSend\<close>, and whose header is a header of the grammar with a \<^verbatim>\<open>code\<close> token and a
  \<^verbatim>\<open>message\<close> token. Then the error branch is the one taken: \<^verbatim>\<open>onError\<close> (if the callback has
  it as a function) is called with the value of the first \<^verbatim>\<open>code\<close> token and with the value
  of the first \<^verbatim>\<open>message\<close> token exactly as the header holds it, undecoded; \<^verbatim>\<open>onSuccess\<close> is
  not called; \<^verbatim>\<open>onEnd\<close> (if it is there) follows. Whether the code arrives as the header's
  text or as the number it denotes is left open here.
\<close>

theorem asyncSend_callback_routing:
  assumes "unPack e buf = Inr p"
    and "headerLength p + bodyLength p + 20 \<le> MAX_PAYLOAD"
    and "requestCallback c = Some m"
    and "m (operator p + sequence p) = Some (AsyncSendListener cb k)"
    and "parse e (if body p = [] then ''{}'' else body p) = Inr d"
    and "well_formed kvs" and "header p = encode_header kvs"
    and "map_of kvs ''code'' = Some cv" and "map_of kvs ''message'' = Some mv"
  shows "fst (onmessage e (Blob buf) c) = None \<and>
         (\<exists>x. (x = Str cv \<or> x = Number (toNumber e cv)) \<and>
              effects (snd (onmessage e (Blob buf) c)) =
                effects c @ hook_calls (onError cb) [Val x, Val (Str mv)] @
                hook_calls (onEnd cb) [])"
proof -
  let ?c1 = "c\<lparr>responseHeader := Some (header p)\<rparr>"
  have rc: "requestCallback ?c1 = Some m"
    using assms(3) by simp
  have rh: "responseHeader ?c1 = Some (encode_header kvs)"
    using assms(7) by simp
  have code: "getResponseProperty ?c1 ''code'' = Inr (Some cv)"
    by (rule getResponseProperty_encode_header [OF assms(6) rh _ assms(8)]) simp
  have message: "getResponseProperty ?c1 ''message'' = Inr (Some mv)"
    by (rule getResponseProperty_encode_header [OF assms(6) rh _ assms(9)]) simp
  have disp: "onmessage e (Blob buf) c = rethrow (asyncSend_listener cb k d ?c1)"
    using onmessage_dispatch [OF assms(1-5)] by simp
  have ok: "fst (asyncSend_listener cb k d ?c1) = None"
    by (rule asyncSend_listener_result(1) [OF rc code message])
  have eq: "onmessage e (Blob buf) c = asyncSend_listener cb k d ?c1"
    using disp ok by (simp add: rethrow_fst_None)
  have eff: "effects (snd (asyncSend_listener cb k d ?c1)) =
           effects c @ hook_calls (onError cb) [Val (Str cv), Val (Str mv)] @
           hook_calls (onEnd cb) []"
    using asyncSend_listener_result(3) [OF rc code message, of cb k d] by simp
  from eq ok eff show ?thesis by auto
qed

theorem asyncSend_callback_routing_witness:
  "well_formed [(''code'', ''500''), (''message'', ''try+again'')] \<and>
   encode_header [(''code'', ''500''), (''message'', ''try+again'')]
     = ''code=500;message=try+again;'' \<and>
   requestCallback pending_client = Some [1324 \<mapsto> AsyncSendListener all_hooks 1324] \<and>
   fst (onmessage frame_env (Blob (frame 324 1000 ''code=500;message=try+again;'' ''{}''))
          pending_client) = None \<and>
   (\<exists>x. (x = Str ''500'' \<or> x = Number (toNumber frame_env ''500'')) \<and>
      effects (snd (onmessage frame_env
                     (Blob (frame 324 1000 ''code=500;message=try+again;'' ''{}''))
                     pending_client))
        = effects pending_client @ [Call 3 [Val x, Val (Str ''try+again'')], Call 4 []])"
proof -
  let ?p = "frame 324 1000 ''code=500;message=try+again;'' ''{}''"
  let ?kvs = "[(''code'', ''500''), (''message'', ''try+again'')]"
  have h1: "unPack frame_env ?p = Inr ?p"
    by (simp add: frame_env_def)
  have h2: "headerLength ?p + bodyLength ?p + 20 \<le> MAX_PAYLOAD"
    by (simp add: frame_def MAX_PAYLOAD_def)
  have h3: "requestCallback pending_client = Some [1324 \<mapsto> AsyncSendListener all_hooks 1324]"
    by (simp add: client_defs)
  have h4: "[1324 \<mapsto> AsyncSendListener all_hooks 1324] (operator ?p + sequence ?p)
              = Some (AsyncSendListener all_hooks 1324)"
    by (simp add: frame_def)
  have h5: "parse frame_env (if body ?p = [] then ''{}'' else body ?p) = Inr ''{}''"
    by (simp add: frame_env_def frame_def)
  have h6: "well_formed ?kvs"
    by (simp add: well_formed_def token_char_def)
  have enc: "encode_header ?kvs = ''code=500;message=try+again;''"
    by simp
  have h7: "header ?p = encode_header ?kvs"
    by (simp add: frame_def)
  have h8: "map_of ?kvs ''code'' = Some ''500''"
    by simp
  have h9: "map_of ?kvs ''message'' = Some ''try+again''"
    by simp
  show ?thesis
    using h3 h6 enc asyncSend_callback_routing [OF h1 h2 h3 h4 h5 h6 h7 h8 h9]
    by (simp add: all_hooks_def)
qed

text \<open>
  C1 as stated fails on its own example: for the header \<^verbatim>\<open>code=404;message=not+found;\<close>
  the message that \<^verbatim>\<open>onError\<close> receives is the text \<^verbatim>\<open>not+found\<close> as the header holds it,
  and with no value for the code is it the decoded text \<^verbatim>\<open>not found\<close>.
\<close>

theorem code_404_counterexample:
  "(\<exists>x. effects (snd (onmessage frame_env
                  (Blob (frame 324 1000 ''code=404;message=not+found;'' ''{}'')) pending_client))
     = effects pending_client @ [Call 3 [Val x, Val (Str ''not+found'')], Call 4 []]) \<and>
   \<not> (\<exists>x. effects (snd (onmessage frame_env
                  (Blob (frame 324 1000 ''code=404;message=not+found;'' ''{}'')) pending_client))
     = effects pending_client @ [Call 3 [Val x, Val (Str ''not found'')], Call 4 []])"
  by (simp add: client_defs)

section \<open>The size check\<close>

text \<open>
  C2 (amended). On a client whose maximum payload is still the default \<open>MAX_PAYLOAD\<close>
  (1 MiB): the size check runs after \<^verbatim>\<open>unPack\<close> has decoded the frame. For every inbound
  blob that \<^verbatim>\<open>unPack\<close> decodes to a packet whose \<open>headerLength + bodyLength + 20\<close> exceeds
  the maximum, the handler fails with the error \<^verbatim>\<open>the packet is big than 1048576\<close> and
  leaves the client as it was; a blob that \<^verbatim>\<open>unPack\<close> rejects fails with the error of
  \<^verbatim>\<open>unPack\<close> instead.
\<close>

theorem oversize_checked_after_unPack:
  assumes "maxPayload c = MAX_PAYLOAD"
  shows "(\<forall>p. unPack e buf = Inr p \<and> headerLength p + bodyLength p + 20 > maxPayload c \<longrightarrow>
            onmessage e (Blob buf) c
              = (Some (Rethrown (Error ''the packet is big than 1048576'')), c)) \<and>
         (\<forall>err. unPack e buf = Inl err \<longrightarrow>
            onmessage e (Blob buf) c = (Some (Rethrown err), c))"
  using assms by (simp add: onmessage_def onload_def rethrow_def Let_def)

theorem oversize_checked_after_unPack_witness:
  "maxPayload (ready_client :: (string, packet) client) = MAX_PAYLOAD \<and>
   headerLength (frame 1 2 (replicate 1048576 (CHR ''a'')) ''{}'')
     + bodyLength (frame 1 2 (replicate 1048576 (CHR ''a'')) ''{}'') + 20 = 1048598 \<and>
   fst (onmessage frame_env (Blob (frame 1 2 (replicate 1048576 (CHR ''a'')) ''{}'')) ready_client)
     = Some (Rethrown (Error ''the packet is big than 1048576'')) \<and>
   unPack bytes_env truncated_frame = Inl (Error ''MalformedFrame'') \<and>
   fst (onmessage bytes_env (Blob truncated_frame) ready_client)
     = Some (Rethrown (Error ''MalformedFrame''))"
proof -
  let ?p = "frame 1 2 (replicate 1048576 (CHR ''a'')) ''{}''"
  have m1: "maxPayload (ready_client :: (string, packet) client) = MAX_PAYLOAD"
    by (simp add: ready_client_def)
  have m2: "maxPayload (ready_client :: (string, 8 word list) client) = MAX_PAYLOAD"
    by (simp add: ready_client_def)
  have len: "headerLength ?p + bodyLength ?p + 20 = 1048598"
    by (simp add: frame_def)
  have dec: "unPack frame_env ?p = Inr ?p"
    by (simp add: frame_env_def)
  have big: "headerLength ?p + bodyLength ?p + 20 > maxPayload (ready_client :: (string, packet) client)"
    by (simp add: len m1 MAX_PAYLOAD_def)
  have bad: "unPack bytes_env truncated_frame = Inl (Error ''MalformedFrame'')"
    by (simp add: bytes_env_def unPack_spec_def be_uint_def truncated_frame_def)
  show ?thesis
    using m1 len dec big bad
      oversize_checked_after_unPack [OF m1, of frame_env ?p]
      oversize_checked_after_unPack [OF m2, of bytes_env truncated_frame]
    by simp
qed

text \<open>
  C2 as stated fails: the check does not run before decoding. With the decoder of the
  spec, a buffer of twenty bytes that declares a header of 2 MiB is rejected by the decoder
  as malformed; the size error is never raised for it.
\<close>

theorem oversize_before_decode_counterexample:
  "be_uint (take 4 (drop 12 truncated_frame)) + be_uint (take 4 (drop 16 truncated_frame)) + 20
     > maxPayload (ready_client :: (string, 8 word list) client) \<and>
   fst (onmessage bytes_env (Blob truncated_frame) ready_client)
     = Some (Rethrown (Error ''MalformedFrame'')) \<and>
   \<not> fst (onmessage bytes_env (Blob truncated_frame) ready_client)
     = Some (Rethrown (Error ''the packet is big than 1048576''))"
  by (simp add: client_defs bytes_env_def unPack_spec_def be_uint_def truncated_frame_def)

section \<open>One-shot delivery\<close>

text \<open>
  C3 (amended). On a client with an open socket and a registry, a call
  \<^verbatim>\<open>asyncSend(op, param, cb)\<close> at time \<open>s\<close> is registered under \<open>crc32 op + s\<close>. In any
  later state \<open>c'\<close> in which the entry under that key is still the one this call made, a
  frame with operator \<open>crc32 op\<close> and sequence \<open>s\<close> that \<^verbatim>\<open>unPack\<close> decodes, that is within the
  size limit and whose body is empty or parses as JSON has exactly one of \<^verbatim>\<open>onSuccess\<close> and
  \<^verbatim>\<open>onError\<close> as the hook invoked, then \<^verbatim>\<open>onEnd\<close>, each called once if the callback has it
  as a function (the hooks returning normally); then the entry is removed, and the same
  frame arriving again is dropped and changes nothing: no callback fires twice.
\<close>

theorem one_shot_delivered_once:
  assumes "socket c = OPEN" and "requestCallback c = Some m"
    and "c1 = snd (asyncSend e opr param (Object cb) s c)"
    and "requestCallback c' = Some m'"
    and "m' (crc32 e opr + s) = Some (AsyncSendListener cb (crc32 e opr + s))"
    and "unPack e buf = Inr p" and "operator p = crc32 e opr" and "sequence p = s"
    and "headerLength p + bodyLength p + 20 \<le> MAX_PAYLOAD"
    and "parse e (if body p = [] then ''{}'' else body p) = Inr d"
    and "c2 = snd (onmessage e (Blob buf) c')"
  shows "fst (asyncSend e opr param (Object cb) s c) = None \<and>
         requestCallback c1
           = Some (m(crc32 e opr + s \<mapsto> AsyncSendListener cb (crc32 e opr + s))) \<and>
         fst (onmessage e (Blob buf) c') = None \<and>
         (effects c2 = effects c' @ hook_calls (onSuccess cb) [Json d] @ hook_calls (onEnd cb) [] \<or>
          (\<exists>x y. effects c2
             = effects c' @ hook_calls (onError cb) [Val x, Val y] @ hook_calls (onEnd cb) [])) \<and>
         requestCallback c2 = Some (m'(crc32 e opr + s := None)) \<and>
         onmessage e (Blob buf) c2 = (None, c2)"
proof -
  let ?k = "crc32 e opr + s"
  let ?c'' = "c'\<lparr>responseHeader := Some (header p)\<rparr>"
  have sent_ok: "fst (asyncSend e opr param (Object cb) s c) = None"
    by (rule asyncSend_registers(1) [OF assms(1,2)])
  have reg: "requestCallback c1 = Some (m(?k \<mapsto> AsyncSendListener cb ?k))"
    unfolding assms(3) by (rule asyncSend_registers(2) [OF assms(1,2)])
  have key: "operator p + sequence p = ?k"
    using assms(7,8) by simp
  have entry: "m' (operator p + sequence p) = Some (AsyncSendListener cb ?k)"
    using key assms(5) by simp
  have disp: "onmessage e (Blob buf) c' = rethrow (asyncSend_listener cb ?k d ?c'')"
    using onmessage_dispatch [OF assms(6) assms(9) assms(4) entry assms(10)] by simp
  have reg': "requestCallback ?c'' = Some m'"
    using assms(4) by simp
  obtain code where code: "getResponseProperty ?c'' ''code'' = Inr code"
    using getResponseProperty_defined [of ?c'' "header p" "''code''"] by auto
  obtain message where message: "getResponseProperty ?c'' ''message'' = Inr message"
    using getResponseProperty_defined [of ?c'' "header p" "''message''"] by auto
  note res = asyncSend_listener_result [OF reg' code message, of cb ?k d]
  have eq: "onmessage e (Blob buf) c' = asyncSend_listener cb ?k d ?c''"
    using disp res(1) by (simp add: rethrow_fst_None)
  have delivered: "fst (onmessage e (Blob buf) c') = None"
    using eq res(1) by simp
  have c2: "c2 = snd (asyncSend_listener cb ?k d ?c'')"
    using eq assms(11) by simp
  have eff: "effects c2 = effects c' @
           (case code of
              Some cv \<Rightarrow> hook_calls (onError cb) [Val (Str cv), Val (of_option message)]
            | None \<Rightarrow> hook_calls (onSuccess cb) [Json d]) @
           hook_calls (onEnd cb) []"
    using res(3) c2 by simp
  have one: "effects c2 = effects c' @ hook_calls (onSuccess cb) [Json d] @ hook_calls (onEnd cb) [] \<or>
          (\<exists>x y. effects c2
             = effects c' @ hook_calls (onError cb) [Val x, Val y] @ hook_calls (onEnd cb) [])"
  proof (cases code)
    case None
    with eff show ?thesis by simp
  next
    case (Some cv)
    with eff have "effects c2 = effects c' @
        hook_calls (onError cb) [Val (Str cv), Val (of_option message)] @ hook_calls (onEnd cb) []"
      by simp
    then show ?thesis by blast
  qed
  have removed: "requestCallback c2 = Some (m'(?k := None))"
    using res(2) c2 by simp
  have gone: "(m'(?k := None)) (operator p + sequence p) = None"
    using key by simp
  have dropped: "onmessage e (Blob buf) c2 = (None, c2)"
    by (rule onmessage_dropped [OF assms(6) assms(9) removed gone])
  from sent_ok reg delivered one removed dropped show ?thesis by simp
qed

theorem one_shot_delivered_once_witness:
  "socket (ready_client :: (string, packet) client) = OPEN \<and>
   fst (asyncSend frame_env (Str ''foo'') ''{}'' (Object all_hooks) 1000 ready_client) = None \<and>
   requestCallback pending_client = Some [1324 \<mapsto> AsyncSendListener all_hooks 1324] \<and>
   fst (onmessage frame_env (Blob (frame 324 1000 ''a=b;'' ''[1]'')) pending_client) = None \<and>
   (effects (snd (onmessage frame_env (Blob (frame 324 1000 ''a=b;'' ''[1]'')) pending_client))
      = effects pending_client @ [Call 2 [Json ''[1]''], Call 4 []] \<or>
    (\<exists>x y. effects (snd (onmessage frame_env (Blob (frame 324 1000 ''a=b;'' ''[1]''))
                          pending_client))
      = effects pending_client @ [Call 3 [Val x, Val y], Call 4 []])) \<and>
   requestCallback (snd (onmessage frame_env (Blob (frame 324 1000 ''a=b;'' ''[1]''))
                          pending_client))
     = Some Map.empty \<and>
   onmessage frame_env (Blob (frame 324 1000 ''a=b;'' ''[1]''))
       (snd (onmessage frame_env (Blob (frame 324 1000 ''a=b;'' ''[1]'')) pending_client))
     = (None, snd (onmessage frame_env (Blob (frame 324 1000 ''a=b;'' ''[1]'')) pending_client))"
proof -
  let ?p = "frame 324 1000 ''a=b;'' ''[1]''"
  let ?m = "[1324 \<mapsto> AsyncSendListener all_hooks 1324]"
  have h1: "socket (ready_client :: (string, packet) client) = OPEN"
    by (simp add: ready_client_def)
  have h2: "requestCallback (ready_client :: (string, packet) client) = Some Map.empty"
    by (simp add: ready_client_def)
  have k: "crc32 frame_env (Str ''foo'') + 1000 = 1324"
    by (simp add: frame_env_def char_sum_def)
  have h4: "requestCallback pending_client = Some ?m"
    by (simp add: client_defs)
  have h5: "?m (crc32 frame_env (Str ''foo'') + 1000)
              = Some (AsyncSendListener all_hooks (crc32 frame_env (Str ''foo'') + 1000))"
    by (simp add: k)
  have h6: "unPack frame_env ?p = Inr ?p"
    by (simp add: frame_env_def)
  have h7: "operator ?p = crc32 frame_env (Str ''foo'')"
    by (simp add: frame_def frame_env_def char_sum_def)
  have h8: "sequence ?p = 1000"
    by (simp add: frame_def)
  have h9: "headerLength ?p + bodyLength ?p + 20 \<le> MAX_PAYLOAD"
    by (simp add: frame_def MAX_PAYLOAD_def)
  have h10: "parse frame_env (if body ?p = [] then ''{}'' else body ?p) = Inr ''[1]''"
    by (simp add: frame_env_def frame_def)
  have rm: "?m(1324 := None) = Map.empty"
    by simp
  have hs: "hook_calls (onSuccess all_hooks) [Json ''[1]''] = [Call 2 [Json ''[1]'']]"
    and he: "\<And>x y. hook_calls (onError all_hooks) [Val x, Val y] = [Call 3 [Val x, Val y]]"
    and hn: "hook_calls (onEnd all_hooks) [] = [Call 4 []]"
    by (simp_all add: all_hooks_def)
  note inst = one_shot_delivered_once [OF h1 h2 pending_client_def h4 h5 h6 h7 h8 h9 h10 refl]
  show ?thesis
    using h1 h4 inst unfolding k rm hs he hn by simp
qed

text \<open>
  C3 as stated fails for a matched frame whose body is not JSON: \<^verbatim>\<open>JSON.parse\<close> throws
  before the callback's closure is called, so no hook and no \<^verbatim>\<open>onEnd\<close> is invoked, the
  entry stays in the registry, and the same frame arriving again throws again instead of
  being dropped.
\<close>

theorem unparsable_body_counterexample:
  "requestCallback pending_client = Some [1324 \<mapsto> AsyncSendListener all_hooks 1324] \<and>
   fst (onmessage checking_env (Blob (frame 324 1000 '''' ''oops'')) pending_client)
     = Some (Rethrown (SyntaxError ''JSON.parse'')) \<and>
   effects (snd (onmessage checking_env (Blob (frame 324 1000 '''' ''oops'')) pending_client))
     = effects pending_client \<and>
   requestCallback (snd (onmessage checking_env (Blob (frame 324 1000 '''' ''oops''))
                          pending_client))
     = Some [1324 \<mapsto> AsyncSendListener all_hooks 1324] \<and>
   fst (onmessage checking_env (Blob (frame 324 1000 '''' ''oops''))
          (snd (onmessage checking_env (Blob (frame 324 1000 '''' ''oops'')) pending_client)))
     = Some (Rethrown (SyntaxError ''JSON.parse''))"
  by (simp add: client_defs checking_env_def checking_parse_def bare_word_def)

section \<open>Reconnection\<close>

lemma reconnect_locked: "reconnectLock c = Some True \<Longrightarrow> reconnect c = c"
  by (simp add: reconnect_def)

lemma open_resets_counter: "reconnectTimes (snd (fire e OpenEvent c)) = Some (Num 0)"
  by (simp add: onopen_def call_if_function_fields)

lemma close_while_scheduled:
  "reconnectLock c = Some True \<Longrightarrow>
     timers (snd (fire e CloseEvent c)) = timers c \<and>
     timers (snd (fire e ErrorEvent c)) = timers c"
  by (simp add: onclose_def onerror_def call_if_function_fields reconnect_def)

lemma failed_attempt:
  assumes "reconnectTimes c = Some (Num k)" and "reconnectLock c \<noteq> Some True" and "timers c = []"
  shows "timers (snd (fire e CloseEvent c)) = [Num (k * 1000)]"
    and "reconnectTimes (run e [CloseEvent, TimeoutEvent] c) = Some (Num (k + 1))"
    and "reconnectLock (run e [CloseEvent, TimeoutEvent] c) = Some False"
    and "timers (run e [CloseEvent, TimeoutEvent] c) = []"
  using assms
  by (simp_all add: onclose_def call_if_function_fields reconnect_def reconnect_timeout_def)

text \<open>
  Once the counter holds a number (after an open it holds 0), the backoff is linear: after
  \<open>n\<close> failed attempts, each a close followed by its timer, the next close schedules the
  attempt with a delay of \<open>(k + n) * 1000\<close> milliseconds.
\<close>

lemma reconnect_backoff_after_open:
  assumes "reconnectTimes c = Some (Num k)" and "reconnectLock c \<noteq> Some True" and "timers c = []"
  shows "timers (run e (concat (replicate n [CloseEvent, TimeoutEvent]) @ [CloseEvent]) c)
           = [Num ((k + int n) * 1000)]"
  using assms
proof (induction n arbitrary: c k)
  case 0
  then show ?case using failed_attempt(1) [of c k e] by simp
next
  case (Suc n)
  let ?c' = "run e [CloseEvent, TimeoutEvent] c"
  have "timers (run e (concat (replicate n [CloseEvent, TimeoutEvent]) @ [CloseEvent]) ?c')
          = [Num ((k + 1 + int n) * 1000)]"
    by (rule Suc.IH) (simp_all only: failed_attempt(2-4) [OF Suc.prems], simp)
  then show ?case by (simp add: algebra_simps)
qed

text \<open>
  C5. The constructor does not assign \<^verbatim>\<open>reconnectTimes\<close>. On a client whose socket has
  never opened, the first close schedules the attempt with the delay
  \<^verbatim>\<open>undefined * 1000\<close>, which is NaN; the timer's increment makes the counter NaN; and
  the second close schedules the second attempt with the delay NaN again, not 1000
  milliseconds. (With an open before the first close, the second delay is 1000.)
\<close>

theorem reconnect_delay_never_opened:
  "timers (run e [CloseEvent] (constructor u rsc)) = [NaN] \<and>
   reconnectTimes (run e [CloseEvent, TimeoutEvent] (constructor u rsc)) = Some NaN \<and>
   timers (run e [CloseEvent, TimeoutEvent, CloseEvent] (constructor u rsc)) = [NaN] \<and>
   timers (run e [OpenEvent, CloseEvent, TimeoutEvent, CloseEvent] (constructor u rsc))
     = [Num 1000]"
  by (simp add: constructor_def onopen_def onclose_def reconnect_def reconnect_timeout_def
      call_if_function_fields)

section \<open>Setting a request property\<close>

text \<open>
  C6. \<^verbatim>\<open>setRequestProperty\<close> removes the old token with \<^verbatim>\<open>replace\<close>, which finds the text
  \<^verbatim>\<open>k=1;\<close> inside the token \<^verbatim>\<open>ak=1;\<close> first. From the header \<^verbatim>\<open>ak=1;b=2;\<close> (itself built
  by two calls on the empty header), setting \<^verbatim>\<open>k\<close> to 1 and then to 9 gives
  \<^verbatim>\<open>ab=2;k=1;k=9;\<close>: two tokens for \<^verbatim>\<open>k\<close>, of which the lookup returns 1, and the tokens
  of the other keys are not what they were.
\<close>

theorem setRequestProperty_removes_substring:
  "requestHeader header_client = Some ''ak=1;b=2;'' \<and>
   requestHeader (snd (setRequestProperty header_client ''k'' ''1'')) = Some ''ak=1;b=2;k=1;'' \<and>
   requestHeader (snd (setRequestProperty (snd (setRequestProperty header_client ''k'' ''1''))
                         ''k'' ''9''))
     = Some ''ab=2;k=1;k=9;'' \<and>
   getRequestProperty (snd (setRequestProperty (snd (setRequestProperty header_client ''k'' ''1''))
                         ''k'' ''9'')) ''k''
     = Inr (Some ''1'')"
  by (simp add: client_defs)

section \<open>The keep-alive listener\<close>

text \<open>
  C7 (amended). On a client with an open socket and a registry, \<^verbatim>\<open>ping\<close> sends the frame
  packed from operator 0 and sequence 0 and registers its closure under \<open>crc32 0\<close>, where
  dispatch leaves it. An inbound frame whose operator plus sequence equals \<open>crc32 0\<close> (the
  acknowledgement with operator 0 and sequence 0, when the hash maps 0 to 0), that
  \<^verbatim>\<open>unPack\<close> decodes, that is within the size limit and whose body is empty or parses as
  JSON, is dispatched to that closure.
\<close>

theorem ping_listener_routing:
  assumes "socket c = OPEN" and "requestCallback c = Some m"
    and "unPack e buf = Inr p"
    and "operator p + sequence p = crc32 e (Number (Num 0))"
    and "headerLength p + bodyLength p + 20 \<le> MAX_PAYLOAD"
    and "parse e (if body p = [] then ''{}'' else body p) = Inr d"
    and "c1 = snd (ping e param cba c)"
  shows "fst (ping e param cba c) = None \<and>
         effects c1 = effects c @ [SocketSend (pack e 0 0 (requestHeader c) (stringify e param))] \<and>
         requestCallback c1 = Some (m(crc32 e (Number (Num 0)) \<mapsto> PingListener cba)) \<and>
         onmessage e (Blob buf) c1
           = rethrow (ping_listener e cba d (c1\<lparr>responseHeader := Some (header p)\<rparr>)) \<and>
         requestCallback (snd (onmessage e (Blob buf) c1)) = requestCallback c1"
proof -
  let ?m1 = "m(crc32 e (Number (Num 0)) \<mapsto> PingListener cba)"
  have reg: "requestCallback c1 = Some ?m1"
    unfolding assms(7) by (rule ping_registers(2) [OF assms(1,2)])
  have entry: "?m1 (operator p + sequence p) = Some (PingListener cba)"
    using assms(4) by simp
  have disp: "onmessage e (Blob buf) c1
           = rethrow (ping_listener e cba d (c1\<lparr>responseHeader := Some (header p)\<rparr>))"
    using onmessage_dispatch [OF assms(3) assms(5) reg entry assms(6)] by simp
  have kept: "requestCallback (snd (onmessage e (Blob buf) c1)) = requestCallback c1"
    by (simp add: disp rethrow_snd ping_listener_registry)
  show ?thesis
    using ping_registers(1,3) [OF assms(1,2), of e param cba] reg disp kept
    by (simp add: assms(7))
qed

theorem ping_listener_routing_witness:
  "crc32 frame_env (Number (Num 0)) = 0 \<and>
   fst (ping frame_env ''{}'' (Object all_hooks) ready_client) = None \<and>
   effects (snd (ping frame_env ''{}'' (Object all_hooks) ready_client))
     = [SocketSend (frame 0 0 '''' ''{}'')] \<and>
   requestCallback (snd (ping frame_env ''{}'' (Object all_hooks) ready_client))
     = Some [0 \<mapsto> PingListener (Object all_hooks)] \<and>
   onmessage frame_env (Blob (frame 0 0 ''code;'' ''''))
       (snd (ping frame_env ''{}'' (Object all_hooks) ready_client))
     = rethrow (ping_listener frame_env (Object all_hooks) ''{}''
         ((snd (ping frame_env ''{}'' (Object all_hooks) ready_client))
            \<lparr>responseHeader := Some ''code;''\<rparr>))"
proof -
  let ?p = "frame 0 0 ''code;'' ''''"
  have h1: "socket (ready_client :: (string, packet) client) = OPEN"
    by (simp add: ready_client_def)
  have h2: "requestCallback (ready_client :: (string, packet) client) = Some Map.empty"
    by (simp add: ready_client_def)
  have h0: "crc32 frame_env (Number (Num 0)) = 0"
    by (simp add: frame_env_def char_sum_def)
  have h3: "unPack frame_env ?p = Inr ?p"
    by (simp add: frame_env_def)
  have h4: "operator ?p + sequence ?p = crc32 frame_env (Number (Num 0))"
    by (simp add: frame_def h0)
  have h5: "headerLength ?p + bodyLength ?p + 20 \<le> MAX_PAYLOAD"
    by (simp add: frame_def MAX_PAYLOAD_def)
  have h6: "parse frame_env (if body ?p = [] then ''{}'' else body ?p) = Inr ''{}''"
    by (simp add: frame_env_def frame_def)
  have pk: "pack frame_env 0 0 (requestHeader (ready_client :: (string, packet) client))
              (stringify frame_env ''{}'') = frame 0 0 '''' ''{}''"
    by (simp add: frame_env_def frame_def ready_client_def)
  have hd: "header ?p = ''code;''"
    by (simp add: frame_def)
  have ef: "effects (ready_client :: (string, packet) client) = []"
    by (simp add: ready_client_def)
  show ?thesis
    using h0 ping_listener_routing
        [where param = "''{}''" and cba = "Object all_hooks", OF h1 h2 h3 h4 h5 h6 refl]
    by (simp add: pk hd ef)
qed

text \<open>
  C7 as stated fails for an acknowledgement whose body is not JSON, such as the text
  \<^verbatim>\<open>pong\<close>: the frame with operator 0 and sequence 0 finds the entry of \<^verbatim>\<open>ping\<close> (the hash
  maps 0 to 0 here), but \<^verbatim>\<open>JSON.parse\<close> throws before the closure is called, and no
  function of the callback is invoked.
\<close>

theorem ping_ack_unparsable_counterexample:
  "requestCallback (snd (ping checking_env ''{}'' (Object all_hooks) ready_client))
     = Some [0 \<mapsto> PingListener (Object all_hooks)] \<and>
   fst (onmessage checking_env (Blob (frame 0 0 '''' ''pong''))
          (snd (ping checking_env ''{}'' (Object all_hooks) ready_client)))
     = Some (Rethrown (SyntaxError ''JSON.parse'')) \<and>
   effects (snd (onmessage checking_env (Blob (frame 0 0 '''' ''pong''))
          (snd (ping checking_env ''{}'' (Object all_hooks) ready_client))))
     = effects (snd (ping checking_env ''{}'' (Object all_hooks) ready_client))"
  by (simp add: client_defs checking_env_def checking_parse_def bare_word_def)

section \<open>Hooks that are not there\<close>

text \<open>
  C8. The closure of \<^verbatim>\<open>ping\<close> calls \<^verbatim>\<open>onEnd\<close> with no check: with a callback object that
  has \<^verbatim>\<open>onSuccess\<close> and \<^verbatim>\<open>onError\<close> but no \<^verbatim>\<open>onEnd\<close>, \<^verbatim>\<open>ping\<close> itself succeeds and the
  acknowledgement then makes the message handler throw. The same callback object given to
  \<^verbatim>\<open>asyncSend\<close> causes no failure.
\<close>

theorem ping_listener_unguarded_hooks:
  "fst (ping frame_env ''{}'' (Object no_onEnd) ready_client) = None \<and>
   fst (onmessage frame_env (Blob (frame 0 0 '''' ''{}''))
          (snd (ping frame_env ''{}'' (Object no_onEnd) ready_client)))
     = Some (Rethrown (TypeError ''requestCallback.onEnd'')) \<and>
   fst (asyncSend frame_env (Str ''foo'') ''{}'' (Object no_onEnd) 1000 ready_client) = None \<and>
   fst (onmessage frame_env (Blob (frame 324 1000 '''' ''{}''))
          (snd (asyncSend frame_env (Str ''foo'') ''{}'' (Object no_onEnd) 1000 ready_client)))
     = None"
  by (simp add: client_defs)

section \<open>The configured maximum payload\<close>

text \<open>
  C9. The size check compares with the constant \<open>MAX_PAYLOAD\<close> and never reads
  \<^verbatim>\<open>maxPayload\<close>: after \<^verbatim>\<open>setMaxPayload(30)\<close>, a frame of 4 + 7 + 20 = 31 bytes is not rejected
  but delivered to its listener; and after \<^verbatim>\<open>setMaxPayload(2097152)\<close>, a frame of 1048598
  bytes is rejected although it is below the configured maximum.
\<close>

theorem setMaxPayload_ignored_by_size_check:
  "maxPayload (setMaxPayload listening_client 30) = 30 \<and>
   headerLength (frame 5 0 ''a=b;'' ''{\"n\":1}'') + bodyLength (frame 5 0 ''a=b;'' ''{\"n\":1}'') + 20
     = 31 \<and>
   fst (onmessage frame_env (Blob (frame 5 0 ''a=b;'' ''{\"n\":1}''))
          (setMaxPayload listening_client 30)) = None \<and>
   effects (snd (onmessage frame_env (Blob (frame 5 0 ''a=b;'' ''{\"n\":1}''))
          (setMaxPayload listening_client 30)))
     = [Call 9 [Json ''{\"n\":1}'']] \<and>
   headerLength big_frame + bodyLength big_frame + 20 = 1048598 \<and>
   fst (onmessage frame_env (Blob big_frame) (setMaxPayload listening_client 2097152))
     = Some (Rethrown (Error ''the packet is big than 1048576''))"
  by (simp add: client_defs big_frame_def)

section \<open>An empty body\<close>

text \<open>
  An empty body is parsed as \<^verbatim>\<open>{}\<close>: the listener under the frame's key is invoked with
  what \<^verbatim>\<open>JSON.parse('{}')\<close> returns.
\<close>

lemma empty_body_normalised:
  assumes "unPack e buf = Inr p" and "body p = []"
    and "headerLength p + bodyLength p + 20 \<le> MAX_PAYLOAD"
    and "requestCallback c = Some m"
    and "m (operator p + sequence p) = Some l"
    and "parse e ''{}'' = Inr d"
  shows "onmessage e (Blob buf) c = rethrow (invoke e l d (c\<lparr>responseHeader := Some (header p)\<rparr>))"
  using onmessage_dispatch [OF assms(1) assms(3) assms(4) assms(5), of d] assms(2,6) by simp

text \<open>
  C10. A response with an empty body and no \<^verbatim>\<open>code\<close> in its header (here an empty header)
  is parsed as \<^verbatim>\<open>{}\<close>, but the lookup of \<^verbatim>\<open>code\<close> returns the empty string, not
  \<^verbatim>\<open>undefined\<close>, so the callback's \<^verbatim>\<open>onError\<close> is called with two empty strings and
  \<^verbatim>\<open>onSuccess\<close> is not called.
\<close>

theorem empty_body_reaches_onError:
  "fst (onmessage frame_env (Blob (frame 324 1000 '''' '''')) pending_client) = None \<and>
   getResponseProperty (pending_client\<lparr>responseHeader := Some ''''\<rparr>) ''code'' = Inr (Some '''') \<and>
   effects (snd (onmessage frame_env (Blob (frame 324 1000 '''' '''')) pending_client))
     = effects pending_client @ [Call 3 [Val (Str ''''), Val (Str '''')], Call 4 []]"
  by (simp add: client_defs)

end
